theory Spec2Isabelle
  imports
    Main
    "HOL-Library.AList"
    "HOL-Library.Char_ord"
    "HOL-Library.List_Lexorder"
begin

section \<open>Tables, files and diagnostics\<close>

text \<open>
  \<^verbatim>\<open>build_db.py\<close> is a straight-line script over pandas tables. \<^verbatim>\<open>read_table\<close> is
  called without \<^verbatim>\<open>dtype\<close>, so pandas decides the type of every column of a file, the
  index column too, from its fields: a cell is an integer, a float, a boolean, a text or
  the missing-value marker.

  A float \<open>Finite m x\<close> is the decimal number \<open>m\<close> times ten to the power \<open>x\<close>, with
  \<open>m\<close> not a multiple of ten (zero is \<open>Finite 0 0\<close>), so that equal numbers are equal
  values; \<open>Infinite neg\<close> is an infinity. The rounding of a decimal text to the 64 bits of
  a double, and with it the sign of zero, is not modelled.
\<close>

datatype pyfloat = Finite int int | Infinite bool

datatype cell = NaN | Str string | Bool bool | Integer int | Float pyfloat

text \<open>
  A row (a pandas Series) gives the cell under a column name; a table keeps its index
  name, its column names and its rows, each row with its index label (the record id as
  it was read). Cells of different types are different: that Python takes \<^verbatim>\<open>1\<close>,
  \<^verbatim>\<open>1.0\<close> and \<^verbatim>\<open>True\<close> for equal is not modelled.
\<close>

type_synonym series = "string \<Rightarrow> cell"

record dataframe =
  index_name :: string
  columns :: "string list"
  rows :: "(cell \<times> series) list"

text \<open>
  A tab-separated file, already split into fields: the name of the first header field
  (the index column), the other header names, and for each line the first field and the
  remaining fields, in the order of the header.
\<close>

record tsv =
  header_index :: string
  header :: "string list"
  lines :: "(string \<times> string list) list"

text \<open>
  The script ends either through \<^verbatim>\<open>error(...)\<close>, which prints its arguments and exits
  with status 1, or through an exception nobody catches. Each way of ending is one
  constructor, with the objects that are printed.
\<close>

datatype error =
    MissingColumns string "string list"
  | BadIndexColumn string
  | DuplicateKey "cell list"
  | DuplicateContent "cell list list"
  | InvalidRecord "(cell \<times> string list) list"
  | InvalidComplex "(cell \<times> string list) list"
  | CollaboratorFailure
  | UnresolvedSequences "(cell \<times> cell list) list"
  | TypeError
  | IndexError
  | KeyError "string list"

subsection \<open>Constants of the script\<close>

definition required_columns :: "string list" where
  "required_columns =
     [''complex.id'',
      ''cdr3'', ''v.segm'', ''j.segm'', ''gene'', ''species'',
      ''mhc.a'', ''mhc.b'', ''mhc.type'',
      ''antigen'', ''antigen.gene'', ''antigen.species'',
      ''method'', ''reference'', ''reference.id'']"

definition index_column :: string where
  "index_column = ''record.id''"

definition allowed_mhcs :: "string list" where
  "allowed_mhcs = [''MHCI'', ''MHCII'']"

definition allowed_genes :: "string list" where
  "allowed_genes = [''TRA'', ''TRB'']"

definition allowed_species :: "string list" where
  "allowed_species = [''HomoSapiens'', ''MusMusculus'', ''RattusNorvegicus'', ''MacacaMulatta'']"

definition complex_match_cols :: "string list" where
  "complex_match_cols =
     [''species'',
      ''mhc.a'', ''mhc.b'', ''mhc.type'',
      ''antigen'', ''antigen.gene'', ''antigen.species'',
      ''method'', ''reference'', ''reference.id'']"

subsection \<open>The pandas operations the script calls\<close>

text \<open>
  How pandas' parser reads a number. An integer is an optional sign and digits, with
  white space allowed before and after; a float is an optional sign, digits with an
  optional decimal point, and an optional exponent, or one of \<^verbatim>\<open>inf\<close>, \<^verbatim>\<open>+inf\<close>,
  \<^verbatim>\<open>-inf\<close> in any case.
\<close>

definition space :: "char \<Rightarrow> bool" where
  "space c = (c \<in> set [CHR '' '', CHR 0x09, CHR 0x0A, CHR 0x0B, CHR 0x0C, CHR 0x0D])"

definition digit :: "char \<Rightarrow> bool" where
  "digit c = (c \<in> set ''0123456789'')"

definition digit_value :: "char \<Rightarrow> nat" where
  "digit_value c = length (takeWhile (\<lambda>d. d \<noteq> c) ''0123456789'')"

definition nat_of_digits :: "string \<Rightarrow> nat" where
  "nat_of_digits ds = foldl (\<lambda>n c. 10 * n + digit_value c) 0 ds"

fun signed :: "string \<Rightarrow> bool \<times> string" where
  "signed [] = (False, [])"
| "signed (c # s) =
     (if c = CHR ''-'' then (True, s) else if c = CHR ''+'' then (False, s) else (False, c # s))"

definition parse_int :: "string \<Rightarrow> int option" where
  "parse_int txt =
     (case signed (dropWhile space txt) of
        (neg, s) \<Rightarrow>
          if takeWhile digit s \<noteq> [] \<and> list_all space (dropWhile digit s)
          then Some (if neg then - int (nat_of_digits (takeWhile digit s))
                     else int (nat_of_digits (takeWhile digit s)))
          else None)"

function normal :: "int \<Rightarrow> int \<Rightarrow> pyfloat" where
  "normal m x =
     (if m = 0 then Finite 0 0
      else if m mod 10 = 0 then normal (m div 10) (x + 1)
      else Finite m x)"
  by pat_completeness auto
termination
  by (relation "measure (\<lambda>(m, x). nat \<bar>m\<bar>)") auto

text \<open>
  The exponent part: \<^verbatim>\<open>e\<close> or \<^verbatim>\<open>E\<close>, an optional sign and digits; an \<^verbatim>\<open>e\<close> with no digit
  after it is not read. The parser refuses a decimal exponent below -1021 or above 1024.
\<close>

definition exponent :: "string \<Rightarrow> int \<times> string" where
  "exponent s =
     (case s of
        [] \<Rightarrow> (0, s)
      | c # r \<Rightarrow>
          if c = CHR ''e'' \<or> c = CHR ''E'' then
            (case signed r of
               (neg, d) \<Rightarrow>
                 if takeWhile digit d = [] then (0, s)
                 else (if neg then - int (nat_of_digits (takeWhile digit d))
                       else int (nat_of_digits (takeWhile digit d)),
                       dropWhile digit d))
          else (0, s))"

definition lower :: "char \<Rightarrow> char" where
  "lower c = (case map_of (zip ''INF'' ''inf'') c of None \<Rightarrow> c | Some l \<Rightarrow> l)"

definition parse_float :: "string \<Rightarrow> pyfloat option" where
  "parse_float txt =
     (case signed (dropWhile space txt) of
        (neg, s) \<Rightarrow>
          (let whole = takeWhile digit s;
               r = dropWhile digit s;
               frac = (case r of [] \<Rightarrow> []
                       | c # r' \<Rightarrow> if c = CHR ''.'' then takeWhile digit r' else []);
               r2 = (case r of [] \<Rightarrow> []
                     | c # r' \<Rightarrow> if c = CHR ''.'' then dropWhile digit r' else r);
               m = int (nat_of_digits (whole @ frac));
               x = fst (exponent r2) - int (length frac)
           in if whole @ frac \<noteq> [] \<and> list_all space (snd (exponent r2)) \<and> - 1021 \<le> x \<and> x \<le> 1024
              then Some (normal (if neg then - m else m) x)
              else if map lower txt \<in> set [''inf'', ''+inf''] then Some (Infinite False)
              else if map lower txt = ''-inf'' then Some (Infinite True)
              else None))"

text \<open>
  The type of a column. The fields that are missing-value markers (\<open>na\<close>) are set
  aside; the others decide: all integers that fit 64 bits give an integer column (a
  float column when a value is missing), integers that do not fit stay texts; else all
  floats give a float column; else all of \<^verbatim>\<open>True\<close>, \<^verbatim>\<open>TRUE\<close>, \<^verbatim>\<open>true\<close>, \<^verbatim>\<open>False\<close>,
  \<^verbatim>\<open>FALSE\<close>, \<^verbatim>\<open>false\<close> give a boolean column; else the fields stay texts. (A column
  that has an integer beyond 64 bits next to fields that are not integers is typed by
  the later rules here; pandas decides that case by the order of the fields.)
\<close>

definition default_na :: "string list" where
  "default_na =
     ['''', ''#N/A'', ''#N/A N/A'', ''#NA'', ''-1.#IND'', ''-1.#QNAN'', ''-NaN'', ''-nan'',
      ''1.#IND'', ''1.#QNAN'', ''N/A'', ''NA'', ''NULL'', ''NaN'', ''nan'']"

definition is_na :: "string list \<Rightarrow> bool \<Rightarrow> string \<Rightarrow> bool" where
  "is_na na_values keep_default_na txt =
     (txt \<in> set na_values \<or> (keep_default_na \<and> txt \<in> set default_na))"

definition true_values :: "string list" where
  "true_values = [''True'', ''TRUE'', ''true'']"

definition false_values :: "string list" where
  "false_values = [''False'', ''FALSE'', ''false'']"

definition int64 :: "int \<Rightarrow> bool" where
  "int64 v = (- (2 ^ 63) \<le> v \<and> v < 2 ^ 63)"

definition uint64 :: "int \<Rightarrow> bool" where
  "uint64 v = (0 \<le> v \<and> v < 2 ^ 64)"

definition int_cell :: "bool \<Rightarrow> string \<Rightarrow> cell" where
  "int_cell as_float txt =
     (case parse_int txt of
        None \<Rightarrow> Str txt
      | Some v \<Rightarrow> if as_float then Float (normal v 0) else Integer v)"

definition float_cell :: "string \<Rightarrow> cell" where
  "float_cell txt = (case parse_float txt of None \<Rightarrow> Str txt | Some f \<Rightarrow> Float f)"

definition infer :: "(string \<Rightarrow> bool) \<Rightarrow> string list \<Rightarrow> cell list" where
  "infer na txts =
     (let present = filter (\<lambda>txt. \<not> na txt) txts;
          ints = map parse_int present;
          typed = (\<lambda>f. map (\<lambda>txt. if na txt then NaN else f txt) txts)
      in if list_all (\<lambda>v. v \<noteq> None) ints then
           (if list_all (\<lambda>v. case v of None \<Rightarrow> False | Some i \<Rightarrow> int64 i) ints \<or>
               list_all (\<lambda>v. case v of None \<Rightarrow> False | Some i \<Rightarrow> uint64 i) ints
            then typed (int_cell (present \<noteq> txts))
            else typed Str)
         else if list_all (\<lambda>txt. parse_float txt \<noteq> None) present then typed float_cell
         else if list_all (\<lambda>txt. txt \<in> set true_values \<or> txt \<in> set false_values) present
         then typed (\<lambda>txt. Bool (txt \<in> set true_values))
         else typed Str)"

text \<open>
  \<^verbatim>\<open>read_table\<close> with \<^verbatim>\<open>index_col=[0]\<close>: a line shorter than the header is padded with
  empty fields, every column and the index column are typed by \<open>infer\<close>, and a row
  has no value under a column the file does not have. With \<^verbatim>\<open>na_values=[]\<close> and
  \<^verbatim>\<open>keep_default_na=False\<close>, the arguments of line 35, no field is a missing value.
\<close>

definition pad :: "nat \<Rightarrow> string list \<Rightarrow> string list" where
  "pad n flds = flds @ replicate (n - length flds) []"

definition column_text :: "tsv \<Rightarrow> string \<Rightarrow> string list" where
  "column_text t c =
     map (\<lambda>(i, flds). case map_of (zip (header t) (pad (length (header t)) flds)) c of
                        None \<Rightarrow> []
                      | Some txt \<Rightarrow> txt)
         (lines t)"

definition read_table :: "string list \<Rightarrow> bool \<Rightarrow> tsv \<Rightarrow> dataframe" where
  "read_table na_values keep_default_na t =
     \<lparr>index_name = header_index t,
      columns = header t,
      rows = map (\<lambda>k. (infer (is_na na_values keep_default_na) (map fst (lines t)) ! k,
                       \<lambda>c. if c \<in> set (header t)
                           then infer (is_na na_values keep_default_na) (column_text t c) ! k
                           else NaN))
                 [0..<length (lines t)]\<rparr>"

text \<open>
  \<^verbatim>\<open>Index.get_duplicates()\<close>: the values that occur more than once, each listed once.
  (pandas returns them sorted; the script only tests the list for emptiness and prints
  it, and here they are kept in the order of their first occurrence.)
\<close>

definition get_duplicates :: "'a list \<Rightarrow> 'a list" where
  "get_duplicates xs = [x \<leftarrow> remdups xs. 1 < count_list xs x]"

text \<open>
  \<^verbatim>\<open>df.append(other, verify_integrity=True)\<close>: the rows of both tables, those of
  \<^verbatim>\<open>df\<close> first, over the union of their columns; a ValueError naming the overlapping
  labels when the joined index has a label twice. (The script appends a chunk only when
  its index has the name of the index of \<^verbatim>\<open>df\<close>, which the result keeps.)
\<close>

definition append_verify :: "dataframe \<Rightarrow> dataframe \<Rightarrow> error + dataframe" where
  "append_verify df other =
     (let idx = map fst (rows df) @ map fst (rows other) in
      if \<not> distinct idx then Inl (DuplicateKey (get_duplicates idx))
      else Inr \<lparr>index_name = index_name df,
                columns = columns df @ [c \<leftarrow> columns other. c \<notin> set (columns df)],
                rows = rows df @ rows other\<rparr>)"

section \<open>Making one big table of data (lines 28 to 45)\<close>

definition empty_df :: dataframe where
  "empty_df = \<lparr>index_name = index_column, columns = required_columns, rows = []\<rparr>"

definition missing_cols :: "dataframe \<Rightarrow> string list" where
  "missing_cols chunk = [x \<leftarrow> required_columns. x \<notin> set (columns chunk)]"

text \<open>The two checks on a chunk (lines 37 to 43), in the order of the script.\<close>

definition check_chunk :: "string \<Rightarrow> dataframe \<Rightarrow> error + unit" where
  "check_chunk file chunk =
     (if missing_cols chunk \<noteq> [] then Inl (MissingColumns file (missing_cols chunk))
      else if index_name chunk \<noteq> index_column then Inl (BadIndexColumn file)
      else Inr ())"

text \<open>
  The loop over the chunk files, in the order in which the directory lists them. The
  first \<^verbatim>\<open>error\<close> call or exception ends the run.
\<close>

fun chunk_loop :: "dataframe \<Rightarrow> (string \<times> tsv) list \<Rightarrow> error + dataframe" where
  "chunk_loop df [] = Inr df"
| "chunk_loop df ((file, content) # rest) =
     (let chunk = read_table [] False content in
      case check_chunk file chunk of
        Inl e \<Rightarrow> Inl e
      | Inr _ \<Rightarrow>
          (case append_verify df chunk of
             Inl e \<Rightarrow> Inl e
           | Inr df' \<Rightarrow> chunk_loop df' rest))"

definition merge_chunks :: "(string \<times> tsv) list \<Rightarrow> error + dataframe" where
  "merge_chunks chunk_files = chunk_loop empty_df chunk_files"

section \<open>Check for duplicates (lines 47 to 52)\<close>

text \<open>
  \<^verbatim>\<open>df.set_index(required_columns)\<close> replaces the record ids by the tuples of the
  required columns' values; \<^verbatim>\<open>duplicates\<close> is the list of the tuples that occur more
  than once, and it is what the error message prints.
\<close>

definition duplicates :: "dataframe \<Rightarrow> cell list list" where
  "duplicates df = get_duplicates (map (\<lambda>(i, row). map row required_columns) (rows df))"

definition check_duplicates :: "dataframe \<Rightarrow> error + dataframe" where
  "check_duplicates df =
     (if duplicates df \<noteq> [] then Inl (DuplicateContent (duplicates df)) else Inr df)"

section \<open>Check correctness of certain columns (lines 54 to 93)\<close>

text \<open>
  The three patterns, as \<^verbatim>\<open>re.match\<close> decides them on a byte string: the match starts
  at the first character, \<^verbatim>\<open>\d\<close> is an ASCII digit, and \<^verbatim>\<open>$\<close> holds at the end of
  the text and also just before a line feed that ends the text.
\<close>

definition at_end :: "string \<Rightarrow> bool" where
  "at_end s = (s = [] \<or> s = [CHR 0x0A])"

definition aa :: "char \<Rightarrow> bool" where
  "aa c = (c \<in> set ''ARNDCEQGHILKMFPSTWYV'')"

definition id_pattern :: "string \<Rightarrow> string \<Rightarrow> bool" where
  "id_pattern prefix s =
     (take (length prefix) s = prefix \<and>
      length (take 8 (drop (length prefix) s)) = 8 \<and>
      list_all digit (take 8 (drop (length prefix) s)) \<and>
      at_end (drop (length prefix + 8) s))"

definition record_id_pattern :: "string \<Rightarrow> bool" where
  "record_id_pattern = id_pattern ''VDJDBR''"

definition complex_id_pattern :: "string \<Rightarrow> bool" where
  "complex_id_pattern = id_pattern ''VDJDBC''"

definition aa_pattern :: "string \<Rightarrow> bool" where
  "aa_pattern s = (takeWhile aa s \<noteq> [] \<and> at_end (dropWhile aa s))"

text \<open>\<^verbatim>\<open>re.match\<close> raises a TypeError on a value that is not a string.\<close>

fun re_match :: "(string \<Rightarrow> bool) \<Rightarrow> cell \<Rightarrow> error + bool" where
  "re_match p (Str s) = Inr (p s)"
| "re_match p NaN = Inl TypeError"
| "re_match p (Bool b) = Inl TypeError"
| "re_match p (Integer i) = Inl TypeError"
| "re_match p (Float f) = Inl TypeError"

text \<open>
  Python's truth value of a cell: the empty text, \<^verbatim>\<open>False\<close> and the number zero are
  false; a missing value (a float NaN) is true.
\<close>

fun truthy :: "cell \<Rightarrow> bool" where
  "truthy (Str s) = (s \<noteq> [])"
| "truthy (Bool b) = b"
| "truthy NaN = True"
| "truthy (Integer i) = (i \<noteq> 0)"
| "truthy (Float f) = (f \<noteq> Finite 0 0)"

text \<open>\<^verbatim>\<open>x in allowed\<close> for a list of strings: only a text can be in it.\<close>

fun cell_in :: "cell \<Rightarrow> string list \<Rightarrow> bool" where
  "cell_in (Str s) allowed = (s \<in> set allowed)"
| "cell_in NaN allowed = False"
| "cell_in (Bool b) allowed = False"
| "cell_in (Integer i) allowed = False"
| "cell_in (Float f) allowed = False"

text \<open>\<^verbatim>\<open>str\<close> of a list of strings that hold no quote and no escape: \<^verbatim>\<open>['a', 'b']\<close>.\<close>

fun join :: "string \<Rightarrow> string list \<Rightarrow> string" where
  "join sep [] = []"
| "join sep [x] = x"
| "join sep (x # y # ys) = x @ sep @ join sep (y # ys)"

definition py_str :: "string list \<Rightarrow> string" where
  "py_str xs = ''['' @ join '', '' (map (\<lambda>x. [CHR 0x27] @ x @ [CHR 0x27]) xs) @ '']''"

text \<open>
  The body of the loop over the rows: the messages of one row. Each \<^verbatim>\<open>re.match\<close> can
  raise, which ends the run inside the loop.
\<close>

definition messages :: "cell \<Rightarrow> series \<Rightarrow> error + string list" where
  "messages index row =
     (case re_match record_id_pattern index of
        Inl e \<Rightarrow> Inl e
      | Inr m_record \<Rightarrow>
     (case re_match complex_id_pattern (row ''complex.id'') of
        Inl e \<Rightarrow> Inl e
      | Inr m_complex \<Rightarrow>
     (case re_match aa_pattern (row ''cdr3'') of
        Inl e \<Rightarrow> Inl e
      | Inr m_cdr3 \<Rightarrow>
     (case (if truthy (row ''antigen'') then re_match aa_pattern (row ''antigen'')
            else Inr True) of
        Inl e \<Rightarrow> Inl e
      | Inr m_antigen \<Rightarrow>
          Inr ((if \<not> m_record then [''Bad record identifier''] else []) @
               (if \<not> m_complex then [''Bad complex identifier''] else []) @
               (if \<not> m_cdr3 then [''Bad CDR3 sequence''] else []) @
               (if truthy (row ''antigen'') \<and> \<not> m_antigen
                then [''Bad antigen sequence''] else []) @
               (if \<not> cell_in (row ''mhc.type'') allowed_mhcs
                then [''MHC type should be in '' @ py_str allowed_mhcs] else []) @
               (if \<not> cell_in (row ''gene'') allowed_genes
                then [''TCR gene type should be in '' @ py_str allowed_genes] else []) @
               (if \<not> cell_in (row ''species'') allowed_species
                then [''Species should be in '' @ py_str allowed_species] else []))))))"

text \<open>
  The dictionary \<^verbatim>\<open>bad_records\<close> is an association list in insertion order;
  \<^verbatim>\<open>bad_records[index] = messages\<close> replaces the entry of a key that is there already.
\<close>

fun record_loop ::
  "(cell \<times> series) list \<Rightarrow> (cell \<times> string list) list \<Rightarrow>
   error + (cell \<times> string list) list" where
  "record_loop [] bad_records = Inr bad_records"
| "record_loop ((index, row) # rest) bad_records =
     (case messages index row of
        Inl e \<Rightarrow> Inl e
      | Inr msgs \<Rightarrow>
          record_loop rest
            (if msgs \<noteq> [] then AList.update index msgs bad_records else bad_records))"

definition check_records :: "dataframe \<Rightarrow> error + (cell \<times> string list) list" where
  "check_records df =
     (case record_loop (rows df) [] of
        Inl e \<Rightarrow> Inl e
      | Inr bad_records \<Rightarrow>
          if bad_records \<noteq> [] then Inl (InvalidRecord bad_records) else Inr bad_records)"

section \<open>Check that all records except CDR3 are same (lines 95 to 122)\<close>

text \<open>
  \<^verbatim>\<open>df.groupby('complex.id')\<close>: one group for each text in the column, the keys in
  sorted order, each group with its rows in the order of the table. Rows whose key is
  missing belong to no group. The groups are taken over the texts of the column: the
  script comes here only after the record check, which every row passes only with a
  complex id that is a text.
\<close>

definition groupby :: "string \<Rightarrow> dataframe \<Rightarrow> (string \<times> (cell \<times> series) list) list" where
  "groupby col df =
     map (\<lambda>k. (k, [(i, row) \<leftarrow> rows df. row col = Str k]))
         (sort (remdups (concat (map (\<lambda>(i, row). case row col of Str k \<Rightarrow> [k] | _ \<Rightarrow> [])
                                     (rows df)))))"

text \<open>Python's \<^verbatim>\<open>!=\<close> on two cells: a float NaN differs from everything, itself too.\<close>

definition py_ne :: "cell \<Rightarrow> cell \<Rightarrow> bool" where
  "py_ne a b = (a \<noteq> b \<or> a = NaN)"

text \<open>
  The body of the loop for a group that is not the reserved one. \<^verbatim>\<open>rows[1]\<close> raises an
  IndexError when the group has one row only, after the size message was appended and
  before anything is stored.
\<close>

definition complex_messages :: "(cell \<times> series) list \<Rightarrow> error + string list" where
  "complex_messages grp =
     (case map snd grp of
        r0 # r1 # _ \<Rightarrow>
          (let unmatched_cols =
                 [col_name \<leftarrow> complex_match_cols. py_ne (r0 col_name) (r1 col_name)]
           in Inr ((if length grp \<noteq> 2
                    then [''Number of entries in complex should be 2''] else []) @
                   (if unmatched_cols \<noteq> []
                    then [''The following columns are not matching within complex entries'' @
                          py_str unmatched_cols]
                    else [])))
      | _ \<Rightarrow> Inl IndexError)"

fun complex_loop ::
  "(string \<times> (cell \<times> series) list) list \<Rightarrow> (string \<times> string list) list \<Rightarrow>
   error + (string \<times> string list) list" where
  "complex_loop [] bad_complexes = Inr bad_complexes"
| "complex_loop ((index, grp) # rest) bad_complexes =
     (if index \<noteq> ''VDJDBC00000000'' then
        (case complex_messages grp of
           Inl e \<Rightarrow> Inl e
         | Inr msgs \<Rightarrow>
             complex_loop rest
               (if msgs \<noteq> [] then AList.update index msgs bad_complexes else bad_complexes))
      else complex_loop rest bad_complexes)"

text \<open>
  Line 122 prints \<^verbatim>\<open>bad_records\<close>, the dictionary of the record check, which is empty
  whenever this line is reached, and not \<^verbatim>\<open>bad_complexes\<close>.
\<close>

definition check_complexes ::
  "dataframe \<Rightarrow> (cell \<times> string list) list \<Rightarrow> error + unit" where
  "check_complexes df bad_records =
     (case complex_loop (groupby ''complex.id'' df) [] of
        Inl e \<Rightarrow> Inl e
      | Inr bad_complexes \<Rightarrow>
          if bad_complexes \<noteq> [] then Inl (InvalidComplex bad_records) else Inr ())"

section \<open>Fix (lines 124 to 149)\<close>

text \<open>
  How a cell is written: a text as it is, a boolean as \<^verbatim>\<open>True\<close> or \<^verbatim>\<open>False\<close>, an
  integer in decimal digits, a missing value as \<^verbatim>\<open>na_rep\<close>. A float is written with
  its digits and at least one digit after the point; that Python turns to the exponent
  notation for large and small floats is not modelled.
\<close>

fun dec :: "nat \<Rightarrow> string" where
  "dec n = (if n < 10 then [''0123456789'' ! n]
            else dec (n div 10) @ [''0123456789'' ! (n mod 10)])"

definition render_float :: "pyfloat \<Rightarrow> string" where
  "render_float f =
     (case f of
        Infinite neg \<Rightarrow> (if neg then ''-inf'' else ''inf'')
      | Finite m x \<Rightarrow>
          (if m < 0 then ''-'' else []) @
          (if 0 \<le> x then dec (nat \<bar>m\<bar> * 10 ^ nat x) @ ''.0''
           else let k = nat (- x);
                    ds = dec (nat \<bar>m\<bar>);
                    padded = replicate (Suc k - length ds) (CHR ''0'') @ ds
                in take (length padded - k) padded @ ''.'' @ drop (length padded - k) padded))"

fun render :: "string \<Rightarrow> cell \<Rightarrow> string" where
  "render na_rep NaN = na_rep"
| "render na_rep (Str s) = s"
| "render na_rep (Bool b) = (if b then ''True'' else ''False'')"
| "render na_rep (Integer i) = (if i < 0 then ''-'' else []) @ dec (nat \<bar>i\<bar>)"
| "render na_rep (Float f) = render_float f"

text \<open>
  \<^verbatim>\<open>df[cols].to_csv(path, sep='\t', na_rep='NA')\<close>: the index and the chosen columns.
\<close>

definition to_csv :: "string list \<Rightarrow> string \<Rightarrow> dataframe \<Rightarrow> tsv" where
  "to_csv cols na_rep df =
     \<lparr>header_index = index_name df,
      header = cols,
      lines = map (\<lambda>(i, row). (render na_rep i, map (\<lambda>c. render na_rep (row c)) cols))
                  (rows df)\<rparr>"

text \<open>
  A row of the fixer's table is resolvable when the condition of line 138 does not
  hold: \<^verbatim>\<open>row['good'] or (row['v.canonical'] and row['j.canonical'])\<close>.
\<close>

definition resolvable :: "series \<Rightarrow> bool" where
  "resolvable row =
     (truthy (row ''good'') \<or> (truthy (row ''v.canonical'') \<and> truthy (row ''j.canonical'')))"

text \<open>The columns collected for a row that was not fixed (lines 139 and 140).\<close>

definition unfixed_cols :: "string list" where
  "unfixed_cols =
     [''fixed.cdr3'', ''closest.v.id'', ''closest.j.id'', ''v.canonical'', ''j.canonical'',
      ''v.fix.type'', ''j.fix.type'']"

text \<open>\<^verbatim>\<open>df.loc[index, col] = v\<close> sets the column in every row that has the label.\<close>

definition loc_set ::
  "cell \<Rightarrow> string \<Rightarrow> cell \<Rightarrow> (cell \<times> series) list \<Rightarrow> (cell \<times> series) list" where
  "loc_set index col v rs = map (\<lambda>(i, row). if i = index then (i, row(col := v)) else (i, row)) rs"

definition fix_row :: "cell \<Rightarrow> series \<Rightarrow> (cell \<times> series) list \<Rightarrow> (cell \<times> series) list" where
  "fix_row index row rs =
     loc_set index ''j.segm'' (row ''closest.j.id'')
       (loc_set index ''v.segm'' (row ''closest.v.id'')
          (loc_set index ''cdr3'' (row ''fixed.cdr3'') rs))"

text \<open>
  The loop of lines 137 to 144 over the rows as they were loaded, with the list
  \<^verbatim>\<open>unfixed_cdr3\<close> and the table that is being updated. An entry of the list is the
  row's label with its cells under \<^verbatim>\<open>unfixed_cols\<close>.
\<close>

fun fix_loop ::
  "(cell \<times> series) list \<Rightarrow> (cell \<times> cell list) list \<Rightarrow> (cell \<times> series) list \<Rightarrow>
   (cell \<times> cell list) list \<times> (cell \<times> series) list" where
  "fix_loop [] unfixed_cdr3 rs = (unfixed_cdr3, rs)"
| "fix_loop ((index, row) # rest) unfixed_cdr3 rs =
     (if \<not> resolvable row
      then fix_loop rest (unfixed_cdr3 @ [(index, map row unfixed_cols)]) rs
      else fix_loop rest unfixed_cdr3 (fix_row index row rs))"

text \<open>The two files the script writes under \<^verbatim>\<open>../database/\<close>.\<close>

record database =
  vdjdb_raw :: "tsv option"
  vdjdb :: "tsv option"

text \<open>
  The columns of the table after the loop: an assignment through \<^verbatim>\<open>df.loc\<close> to a column
  the table does not have adds the column, and with no row collected every row of the
  table went through the three assignments.
\<close>

definition columns_after_fix :: "dataframe \<Rightarrow> string list" where
  "columns_after_fix df =
     columns df @
     (case rows df of
        [] \<Rightarrow> []
      | r # rs \<Rightarrow> [c \<leftarrow> [''cdr3'', ''v.segm'', ''j.segm'']. c \<notin> set (columns df)])"

text \<open>
  Lines 135 to 149 on the table loaded from the fixer's file. After the loop and the
  test of \<^verbatim>\<open>unfixed_cdr3\<close>, \<^verbatim>\<open>df[required_columns]\<close> of line 149 raises a KeyError that
  names the required columns the table does not have; otherwise the final export is
  written. The loop reads the cells of a row under the columns of the fixer's interface
  (\<^verbatim>\<open>good\<close>, \<^verbatim>\<open>v.canonical\<close>, \<^verbatim>\<open>j.canonical\<close>, the fixed values, the fix types), which
  a row of the fixer's table is taken to have.
\<close>

definition apply_fixes :: "dataframe \<Rightarrow> database \<Rightarrow> (error + unit) \<times> database" where
  "apply_fixes df files =
     (case fix_loop (rows df) [] (rows df) of
        (unfixed_cdr3, rs) \<Rightarrow>
          if unfixed_cdr3 \<noteq> [] then (Inl (UnresolvedSequences unfixed_cdr3), files)
          else if [c \<leftarrow> required_columns. c \<notin> set (columns_after_fix df)] \<noteq> []
          then (Inl (KeyError [c \<leftarrow> required_columns. c \<notin> set (columns_after_fix df)]), files)
          else (Inr (),
                files\<lparr>vdjdb := Some (to_csv required_columns ''NA''
                                         (df\<lparr>columns := columns_after_fix df, rows := rs\<rparr>))\<rparr>))"

section \<open>The whole script\<close>

text \<open>
  Lines 28 to 122: the merged table when every check lets the run go on. The record
  check hands its dictionary, empty then, to the message of the complex check.
\<close>

definition validated_table :: "(string \<times> tsv) list \<Rightarrow> error + dataframe" where
  "validated_table chunk_files =
     (case merge_chunks chunk_files of
        Inl e \<Rightarrow> Inl e
      | Inr df \<Rightarrow>
     (case check_duplicates df of
        Inl e \<Rightarrow> Inl e
      | Inr df \<Rightarrow>
     (case check_records df of
        Inl e \<Rightarrow> Inl e
      | Inr bad_records \<Rightarrow>
     (case check_complexes df bad_records of
        Inl e \<Rightarrow> Inl e
      | Inr _ \<Rightarrow> Inr df))))"

text \<open>
  The external fixer is a parameter: \<^verbatim>\<open>fixcdr3 raw\<close> is the table that line 133 loads
  from the file the jar wrote for the raw export \<^verbatim>\<open>raw\<close>, with the columns of the
  fixer's interface, or \<open>None\<close> when \<^verbatim>\<open>check_call\<close> raises. The run starts from the
  files that are there and returns how it ended and the files that are there then.
\<close>

definition build_db ::
  "(tsv \<Rightarrow> dataframe option) \<Rightarrow> (string \<times> tsv) list \<Rightarrow> database \<Rightarrow> (error + unit) \<times> database" where
  "build_db fixcdr3 chunk_files files =
     (case validated_table chunk_files of
        Inl e \<Rightarrow> (Inl e, files)
      | Inr df \<Rightarrow>
          (let raw = to_csv required_columns ''NA'' df;
               files' = files\<lparr>vdjdb_raw := Some raw\<rparr>
           in case fixcdr3 raw of
                None \<Rightarrow> (Inl CollaboratorFailure, files')
              | Some fixed \<Rightarrow> apply_fixes fixed files'))"

section \<open>Notions used in the statements\<close>





text \<open>
  The entries collected for the rows that are not resolvable, and a row after the three
  assignments of lines 142 to 144.
\<close>

definition unresolved :: "(cell \<times> series) list \<Rightarrow> (cell \<times> cell list) list" where
  "unresolved rs =
     map (\<lambda>(i, row). (i, map row unfixed_cols)) (filter (\<lambda>(i, row). \<not> resolvable row) rs)"

definition overwritten :: "series \<Rightarrow> series" where
  "overwritten row =
     row(''cdr3'' := row ''fixed.cdr3'', ''v.segm'' := row ''closest.v.id'',
         ''j.segm'' := row ''closest.j.id'')"

section \<open>Example inputs\<close>

text \<open>
  Chunk files for the concrete runs below: a line with valid fields, a chunk file with
  the required header, and the table that merging such chunks gives.
\<close>

definition example_line :: "string \<Rightarrow> string \<Rightarrow> string \<Rightarrow> string \<Rightarrow> string \<times> string list" where
  "example_line rid cid cdr3 antigen =
     (rid, [cid, cdr3, ''TRBV1'', ''TRBJ1'', ''TRB'', ''HomoSapiens'', ''HLA-A'', ''B2M'', ''MHCI'',
            antigen, ''M1'', ''InfluenzaA'', ''sort'', ''PMID:1'', ''ref1''])"

definition example_chunk :: "(string \<times> string list) list \<Rightarrow> tsv" where
  "example_chunk ls = \<lparr>header_index = ''record.id'', header = required_columns, lines = ls\<rparr>"

definition example_table :: "tsv list \<Rightarrow> dataframe" where
  "example_table chunks =
     \<lparr>index_name = ''record.id'', columns = required_columns,
      rows = concat (map (\<lambda>t. rows (read_table [] False t)) chunks)\<rparr>"

definition no_files :: database where
  "no_files = \<lparr>vdjdb_raw = None, vdjdb = None\<rparr>"

text \<open>Two valid lines, the second with an empty antigen.\<close>

definition two_line_chunk :: tsv where
  "two_line_chunk = example_chunk
     [example_line ''VDJDBR00000001'' ''VDJDBC00000000'' ''CASSL'' ''GILGFVFTL'',
      example_line ''VDJDBR00000002'' ''VDJDBC00000000'' ''CASSF'' '''']"

definition one_line_chunk :: "string \<Rightarrow> tsv" where
  "one_line_chunk rid =
     example_chunk [example_line rid ''VDJDBC00000000'' ''CASSL'' ''GILGFVFTL'']"

text \<open>A line with a cdr3 that breaks the amino-acid rule.\<close>

definition cdr3_chunk :: tsv where
  "cdr3_chunk = example_chunk
     [example_line ''VDJDBR00000001'' ''VDJDBC00000000'' ''CASSL'' ''GILGFVFTL'',
      example_line ''VDJDBR00000002'' ''VDJDBC00000000'' ''CASSLX1'' '''']"

text \<open>
  Chunk files in which pandas reads a column as numbers: a cdr3 of digits, an antigen
  that is \<^verbatim>\<open>0\<close>, and a reference id \<^verbatim>\<open>007\<close>.
\<close>

definition digits_cdr3_chunk :: tsv where
  "digits_cdr3_chunk = example_chunk
     [example_line ''VDJDBR00000001'' ''VDJDBC00000000'' ''123'' ''GILGFVFTL'']"

definition zero_antigen_chunk :: tsv where
  "zero_antigen_chunk = example_chunk
     [example_line ''VDJDBR00000001'' ''VDJDBC00000000'' ''CASSL'' ''0'']"


text \<open>
  Two chunk files that both define the record id \<^verbatim>\<open>1\<close>: in the first the index column
  is read as integers, in the second, which has the id \<^verbatim>\<open>x\<close> too, as texts.
\<close>

definition id_1_chunk :: tsv where
  "id_1_chunk = example_chunk [example_line ''1'' ''VDJDBC00000000'' ''CASSL'' ''GILGFVFTL'']"

definition id_1_x_chunk :: tsv where
  "id_1_x_chunk = example_chunk
     [example_line ''1'' ''VDJDBC00000000'' ''CASSF'' ''GILGFVFTL'',
      example_line ''x'' ''VDJDBC00000000'' ''CASSY'' ''GILGFVFTL'']"

text \<open>Chunk files with a schema error.\<close>

definition foo_chunk :: tsv where
  "foo_chunk = \<lparr>header_index = ''foo'', header = required_columns,
                 lines = [example_line ''VDJDBR00000001'' ''VDJDBC00000000'' ''CASSL'' ''GILGFVFTL'']\<rparr>"

definition no_cdr3_chunk :: tsv where
  "no_cdr3_chunk = \<lparr>header_index = ''record.id'', header = remove1 ''cdr3'' required_columns,
                     lines = [(''VDJDBR00000002'', [''VDJDBC00000000''])]\<rparr>"


text \<open>A complex with one record, and one with three.\<close>

definition lone_complex_chunk :: tsv where
  "lone_complex_chunk = example_chunk
     [example_line ''VDJDBR00000001'' ''VDJDBC00000001'' ''CASSL'' ''GILGFVFTL'']"

definition triple_complex_chunk :: tsv where
  "triple_complex_chunk = example_chunk
     [example_line ''VDJDBR00000001'' ''VDJDBC00000001'' ''CASSL'' ''GILGFVFTL'',
      example_line ''VDJDBR00000002'' ''VDJDBC00000001'' ''CASSF'' ''GILGFVFTL'',
      example_line ''VDJDBR00000003'' ''VDJDBC00000001'' ''CASSY'' ''GILGFVFTL'']"

text \<open>
  A row of a table loaded from the fixer's file, with its cdr3 and its three flags, and
  tables for the records of \<open>two_line_chunk\<close>: one with a row that is not resolvable,
  one with resolvable rows only, one with the first record only, and one that has the
  columns of the fixer's own output but not the required ones. The empty antigen was
  loaded as a missing value.
\<close>

definition fixed_row :: "string \<Rightarrow> string \<Rightarrow> cell \<Rightarrow> cell \<Rightarrow> cell \<Rightarrow> cell \<times> series" where
  "fixed_row rid cdr3 good v_canonical j_canonical =
     (Str rid, \<lambda>c. case map_of
        [(''complex.id'', Str ''VDJDBC00000000''), (''cdr3'', Str cdr3),
         (''v.segm'', Str ''TRBV1''), (''j.segm'', Str ''TRBJ1''), (''gene'', Str ''TRB''),
         (''species'', Str ''HomoSapiens''), (''mhc.a'', Str ''HLA-A''), (''mhc.b'', Str ''B2M''),
         (''mhc.type'', Str ''MHCI''), (''antigen'', NaN), (''antigen.gene'', Str ''M1''),
         (''antigen.species'', Str ''InfluenzaA''), (''method'', Str ''sort''),
         (''reference'', Str ''PMID:1''), (''reference.id'', Str ''ref1''),
         (''fixed.cdr3'', Str (cdr3 @ ''F'')), (''closest.v.id'', Str ''TRBV1*01''),
         (''closest.j.id'', Str ''TRBJ1*01''), (''good'', good),
         (''v.canonical'', v_canonical), (''j.canonical'', j_canonical),
         (''v.fix.type'', Str ''NoFixNeeded''), (''j.fix.type'', Str ''FailedBadSegment'')] c of
          None \<Rightarrow> NaN
        | Some v \<Rightarrow> v)"

definition fixer_columns :: "string list" where
  "fixer_columns =
     [''fixed.cdr3'', ''closest.v.id'', ''closest.j.id'', ''good'', ''v.canonical'',
      ''j.canonical'', ''v.fix.type'', ''j.fix.type'']"

definition fixed_table :: "(cell \<times> series) list \<Rightarrow> dataframe" where
  "fixed_table rs =
     \<lparr>index_name = ''record.id'', columns = required_columns @ fixer_columns, rows = rs\<rparr>"

definition diag_fixed_table :: dataframe where
  "diag_fixed_table = fixed_table
     [fixed_row ''VDJDBR00000001'' ''CASSL'' (Bool True) (Bool False) (Bool False),
      fixed_row ''VDJDBR00000002'' ''CASSF'' (Bool False) (Bool False) (Bool True)]"




section \<open>Reading and merging chunk files\<close>

lemma chunk_loop_append:
  "chunk_loop df (xs @ ys) =
     (case chunk_loop df xs of Inl e \<Rightarrow> Inl e | Inr df' \<Rightarrow> chunk_loop df' ys)"
  by (induction xs arbitrary: df) (auto simp: Let_def split: sum.splits)







lemma columns_read_table [simp]: "columns (read_table na kd t) = header t"
  by (simp add: read_table_def)

lemma index_name_read_table [simp]: "index_name (read_table na kd t) = header_index t"
  by (simp add: read_table_def)

lemma length_infer [simp]: "length (infer na txts) = length txts"
  by (simp add: infer_def Let_def)

lemma labels_read_table:
  "map fst (rows (read_table na kd t)) = infer (is_na na kd) (map fst (lines t))"
proof -
  let ?xs = "infer (is_na na kd) (map fst (lines t))"
  have "map fst (rows (read_table na kd t)) = map ((!) ?xs) [0..<length ?xs]"
    by (simp add: read_table_def o_def)
  then show ?thesis by (simp only: map_nth)
qed

lemma length_rows_read_table [simp]: "length (rows (read_table na kd t)) = length (lines t)"
  by (simp add: read_table_def)

text \<open>
  Chunk files with the required header and labels that differ merge to the table of
  their rows.
\<close>

lemma chunk_loop_example:
  assumes "\<forall>(f, t) \<in> set fs. header t = required_columns \<and> header_index t = ''record.id''"
    and "distinct (map fst (rows df) @
                   concat (map (\<lambda>(f, t). infer (is_na [] False) (map fst (lines t))) fs))"
    and "columns df = required_columns" and "index_name df = ''record.id''"
  shows "chunk_loop df fs =
           Inr \<lparr>index_name = ''record.id'', columns = required_columns,
                rows = rows df @ concat (map (\<lambda>(f, t). rows (read_table [] False t)) fs)\<rparr>"
  using assms
proof (induction fs arbitrary: df)
  case Nil
  then show ?case by simp
next
  case (Cons a fs)
  obtain f t where a: "a = (f, t)" by (cases a)
  let ?chunk = "read_table [] False t"
  let ?df = "\<lparr>index_name = ''record.id'', columns = required_columns,
              rows = rows df @ rows ?chunk\<rparr>"
  from Cons.prems(1) a have h: "header t = required_columns" "header_index t = ''record.id''"
    by auto
  then have c: "check_chunk f ?chunk = Inr ()"
    by (simp add: check_chunk_def missing_cols_def index_column_def)
  from Cons.prems(2) a have d: "distinct (map fst (rows df) @ map fst (rows ?chunk))"
    by (auto simp: labels_read_table)
  with Cons.prems(3,4) h have ap: "append_verify df ?chunk = Inr ?df"
    by (simp add: append_verify_def Let_def)
  have "chunk_loop ?df fs =
          Inr \<lparr>index_name = ''record.id'', columns = required_columns,
               rows = rows ?df @ concat (map (\<lambda>(f, t). rows (read_table [] False t)) fs)\<rparr>"
  proof (rule Cons.IH)
    from Cons.prems(1) show "\<forall>(f, t) \<in> set fs. header t = required_columns \<and> header_index t = ''record.id''"
      by simp
    from Cons.prems(2) a show "distinct (map fst (rows ?df) @
        concat (map (\<lambda>(f, t). infer (is_na [] False) (map fst (lines t))) fs))"
      by (auto simp: labels_read_table)
  qed simp_all
  with c ap a show ?case by (simp add: Let_def)
qed

lemma merge_chunks_example:
  assumes "\<forall>(f, t) \<in> set fs. header t = required_columns \<and> header_index t = ''record.id''"
    and "distinct (concat (map (\<lambda>(f, t). infer (is_na [] False) (map fst (lines t))) fs))"
  shows "merge_chunks fs = Inr (example_table (map snd fs))"
proof -
  have "chunk_loop empty_df fs =
          Inr \<lparr>index_name = ''record.id'', columns = required_columns,
               rows = rows empty_df @ concat (map (\<lambda>(f, t). rows (read_table [] False t)) fs)\<rparr>"
    using assms by (intro chunk_loop_example) (simp_all add: empty_df_def index_column_def)
  moreover have "map (\<lambda>(f, t). rows (read_table [] False t)) fs =
                 map (\<lambda>t. rows (read_table [] False t)) (map snd fs)"
    by (simp add: case_prod_unfold o_def)
  ultimately show ?thesis
    by (simp add: merge_chunks_def example_table_def empty_df_def)
qed


section \<open>Schema errors and duplicate keys\<close>

text \<open>
  Claim C10. When the loop reaches a chunk file, a required column that is not among the
  chunk's columns ends the run with \<open>MissingColumns\<close>, naming the file and exactly the
  required columns that are missing; with no column missing, an index column whose name
  is not \<^verbatim>\<open>record.id\<close> ends the run with \<open>BadIndexColumn\<close>, naming the file. The checks
  come in this order, and both come before the chunk is appended: a chunk whose index
  column is named \<^verbatim>\<open>foo\<close> is never merged, whatever the table built so far and the
  files still to come.
\<close>

theorem chunk_schema_checked:
  "(c \<in> set required_columns \<and> c \<notin> set (header content) \<longrightarrow>
      (\<exists>missing. chunk_loop df ((file, content) # rest) = Inl (MissingColumns file missing) \<and>
                 c \<in> set missing \<and>
                 set missing = set required_columns - set (header content))) \<and>
   (set required_columns \<subseteq> set (header content) \<and> header_index content \<noteq> ''record.id'' \<longrightarrow>
      chunk_loop df ((file, content) # rest) = Inl (BadIndexColumn file)) \<and>
   (header_index content = ''foo'' \<longrightarrow>
      (\<exists>missing. chunk_loop df ((file, content) # rest) = Inl (MissingColumns file missing)) \<or>
      chunk_loop df ((file, content) # rest) = Inl (BadIndexColumn file))"
proof -
  let ?chunk = "read_table [] False content"
  have cols: "columns ?chunk = header content" "index_name ?chunk = header_index content"
    by (simp_all add: read_table_def)
  have miss: "set (missing_cols ?chunk) = set required_columns - set (header content)"
    by (auto simp: missing_cols_def cols)
  have a: "chunk_loop df ((file, content) # rest) =
             Inl (MissingColumns file (missing_cols ?chunk))" if "missing_cols ?chunk \<noteq> []"
    using that by (simp add: check_chunk_def Let_def)
  have b: "chunk_loop df ((file, content) # rest) = Inl (BadIndexColumn file)"
    if "missing_cols ?chunk = []" "header_index content \<noteq> ''record.id''"
    using that by (simp add: check_chunk_def Let_def cols index_column_def)
  have 1: "\<exists>missing. chunk_loop df ((file, content) # rest) = Inl (MissingColumns file missing) \<and>
                 c \<in> set missing \<and> set missing = set required_columns - set (header content)"
    if "c \<in> set required_columns" "c \<notin> set (header content)"
  proof -
    from that miss have "c \<in> set (missing_cols ?chunk)" by simp
    then have "missing_cols ?chunk \<noteq> []" by auto
    from a[OF this] \<open>c \<in> set (missing_cols ?chunk)\<close> miss show ?thesis by blast
  qed
  have 2: "chunk_loop df ((file, content) # rest) = Inl (BadIndexColumn file)"
    if "set required_columns \<subseteq> set (header content)" "header_index content \<noteq> ''record.id''"
  proof -
    from that(1) miss have "set (missing_cols ?chunk) = {}" by auto
    then have "missing_cols ?chunk = []" by simp
    from b[OF this that(2)] show ?thesis .
  qed
  have 3: "(\<exists>missing. chunk_loop df ((file, content) # rest) = Inl (MissingColumns file missing)) \<or>
           chunk_loop df ((file, content) # rest) = Inl (BadIndexColumn file)"
    if "header_index content = ''foo''"
  proof (cases "missing_cols ?chunk = []")
    case True
    from that have "header_index content \<noteq> ''record.id''" by simp
    from b[OF True this] show ?thesis by simp
  next
    case False
    from a[OF this] show ?thesis by blast
  qed
  from 1 2 3 show ?thesis by blast
qed

theorem chunk_schema_checked_witness:
  "chunk_loop empty_df [(''a.txt'', foo_chunk), (''b.txt'', one_line_chunk ''VDJDBR00000003'')] =
     Inl (BadIndexColumn ''a.txt'') \<and>
   (\<exists>missing. chunk_loop empty_df [(''a.txt'', no_cdr3_chunk)] =
       Inl (MissingColumns ''a.txt'' missing) \<and> set missing = {''cdr3''})"
proof -
  have h1: "set required_columns \<subseteq> set (header foo_chunk) \<and> header_index foo_chunk \<noteq> ''record.id''"
    by (simp add: foo_chunk_def)
  have h2: "''cdr3'' \<in> set required_columns \<and> ''cdr3'' \<notin> set (header no_cdr3_chunk)"
    by (simp add: no_cdr3_chunk_def required_columns_def)
  have s: "set required_columns - set (header no_cdr3_chunk) = {''cdr3''}"
    by (auto simp: no_cdr3_chunk_def required_columns_def)
  from chunk_schema_checked[of _ foo_chunk empty_df "''a.txt''"
         "[(''b.txt'', one_line_chunk ''VDJDBR00000003'')]"] h1
  have 1: "chunk_loop empty_df [(''a.txt'', foo_chunk), (''b.txt'', one_line_chunk ''VDJDBR00000003'')] =
             Inl (BadIndexColumn ''a.txt'')"
    by blast
  from chunk_schema_checked[of "''cdr3''" no_cdr3_chunk empty_df "''a.txt''" "[]"] h2 s
  have 2: "\<exists>missing. chunk_loop empty_df [(''a.txt'', no_cdr3_chunk)] =
       Inl (MissingColumns ''a.txt'' missing) \<and> set missing = {''cdr3''}"
    by auto
  from 1 2 show ?thesis by blast
qed




section \<open>Duplicate records\<close>





section \<open>Complexes\<close>

text \<open>How a run goes on a merged table without duplicates and without invalid records.\<close>

lemma validated_table_records_ok:
  assumes "merge_chunks fs = Inr df" and "duplicates df = []" and "check_records df = Inr []"
  shows "validated_table fs = (case check_complexes df [] of Inl e \<Rightarrow> Inl e | Inr u \<Rightarrow> Inr df)"
  using assms by (simp add: validated_table_def check_duplicates_def)

lemma merge_one_example_chunk:
  assumes "distinct (infer (is_na [] False) (map fst ls))"
  shows "merge_chunks [(f, example_chunk ls)] = Inr (example_table [example_chunk ls])"
proof -
  from assms have "merge_chunks [(f, example_chunk ls)] =
                     Inr (example_table (map snd [(f, example_chunk ls)]))"
    by (intro merge_chunks_example) (simp_all add: example_chunk_def)
  then show ?thesis by simp
qed

text \<open>
  Claim C2 (the code departs from it). A complex with one record only makes the loop
  raise an IndexError at \<^verbatim>\<open>rows[1]\<close>: the size message was appended, but nothing is
  stored and the run ends on this group. And when the loop does end with violating
  groups in \<^verbatim>\<open>bad_complexes\<close>, line 122 prints \<^verbatim>\<open>bad_records\<close>, which is empty there:
  a complex of three records is found, but the report does not hold it.
\<close>

theorem complex_check_defects:
  "build_db fixcdr3 [(''a.txt'', lone_complex_chunk)] files = (Inl IndexError, files) \<and>
   complex_loop (groupby ''complex.id'' (example_table [triple_complex_chunk])) [] =
     Inr [(''VDJDBC00000001'', [''Number of entries in complex should be 2''])] \<and>
   build_db fixcdr3 [(''a.txt'', triple_complex_chunk)] files = (Inl (InvalidComplex []), files)"
proof -
  let ?lone = "example_table [lone_complex_chunk]"
  let ?triple = "example_table [triple_complex_chunk]"
  have "distinct (infer (is_na [] False) [''VDJDBR00000001''])"
    by code_simp
  then have m1: "merge_chunks [(''a.txt'', lone_complex_chunk)] = Inr ?lone"
    unfolding lone_complex_chunk_def
    by (intro merge_one_example_chunk) (simp add: example_line_def)
  have "distinct (infer (is_na [] False) [''VDJDBR00000001'', ''VDJDBR00000002'', ''VDJDBR00000003''])"
    by code_simp
  then have m3: "merge_chunks [(''a.txt'', triple_complex_chunk)] = Inr ?triple"
    unfolding triple_complex_chunk_def
    by (intro merge_one_example_chunk) (simp add: example_line_def)
  have d1: "duplicates ?lone = []" by code_simp
  have d3: "duplicates ?triple = []" by code_simp
  have r1: "check_records ?lone = Inr []" by code_simp
  have r3: "check_records ?triple = Inr []" by code_simp
  have c1: "check_complexes ?lone [] = Inl IndexError" by code_simp
  have c3: "check_complexes ?triple [] = Inl (InvalidComplex [])" by code_simp
  have l: "complex_loop (groupby ''complex.id'' ?triple) [] =
     Inr [(''VDJDBC00000001'', [''Number of entries in complex should be 2''])]"
    by code_simp
  from validated_table_records_ok[OF m1 d1 r1] c1
  have v1: "validated_table [(''a.txt'', lone_complex_chunk)] = Inl IndexError" by simp
  from validated_table_records_ok[OF m3 d3 r3] c3
  have v3: "validated_table [(''a.txt'', triple_complex_chunk)] = Inl (InvalidComplex [])" by simp
  from v1 v3 l show ?thesis by (simp add: build_db_def)
qed

section \<open>Applying the fixes\<close>

lemma fix_loop_unfixed: "fst (fix_loop todo acc cur) = acc @ unresolved todo"
  by (induction todo arbitrary: acc cur) (auto simp: unresolved_def)

lemma loc_set_fresh: "i \<notin> fst ` set rs \<Longrightarrow> loc_set i c v rs = rs"
  by (induction rs) (auto simp: loc_set_def)

lemma loc_set_append: "loc_set i c v (xs @ ys) = loc_set i c v xs @ loc_set i c v ys"
  by (simp add: loc_set_def)

lemma loc_set_Cons: "loc_set i c v ((i, r) # ys) = (i, r(c := v)) # loc_set i c v ys"
  by (simp add: loc_set_def)

lemma fix_row_at:
  assumes "i \<notin> fst ` set pre" and "i \<notin> fst ` set post"
  shows "fix_row i row (pre @ (i, row) # post) = pre @ (i, overwritten row) # post"
  using assms
  by (simp add: fix_row_def loc_set_append loc_set_Cons loc_set_fresh overwritten_def)

lemma fix_loop_table:
  "distinct (map fst (done @ todo)) \<Longrightarrow>
     snd (fix_loop todo acc
            (map (\<lambda>(i, row). (i, if resolvable row then overwritten row else row)) done @ todo)) =
     map (\<lambda>(i, row). (i, if resolvable row then overwritten row else row)) (done @ todo)"
proof (induction todo arbitrary: "done" acc)
  case Nil
  then show ?case by simp
next
  case (Cons a todo)
  obtain i row where a: "a = (i, row)" by (cases a)
  let ?fx = "\<lambda>(i, row). (i, if resolvable row then overwritten row else row)"
  from Cons.prems a have d: "distinct (map fst ((done @ [(i, row)]) @ todo))" by simp
  from Cons.prems a have fresh: "i \<notin> fst ` set done" "i \<notin> fst ` set todo" by auto
  have keys: "fst ` set (map ?fx done) = fst ` set done" by force
  have cur: "(if resolvable row then fix_row i row (map ?fx done @ (i, row) # todo)
              else map ?fx done @ (i, row) # todo) = map ?fx (done @ [(i, row)]) @ todo"
    using fix_row_at[of i "map ?fx done" todo row] fresh keys by simp
  show ?case
  proof (cases "resolvable row")
    case True
    with Cons.IH[OF d, of acc] cur a show ?thesis by simp
  next
    case False
    with Cons.IH[OF d, of "acc @ [(i, map row unfixed_cols)]"] cur a show ?thesis by simp
  qed
qed

lemma fix_loop_rows:
  "distinct (map fst rs) \<Longrightarrow>
     fix_loop rs [] rs =
       (unresolved rs, map (\<lambda>(i, row). (i, if resolvable row then overwritten row else row)) rs)"
  using fix_loop_table[of "[]" rs "[]"] fix_loop_unfixed[of rs "[]" rs]
  by (simp add: prod_eq_iff)


lemma apply_fixes_unresolved:
  "unresolved (rows fixed) \<noteq> [] \<Longrightarrow>
     apply_fixes fixed files = (Inl (UnresolvedSequences (unresolved (rows fixed))), files)"
  using fix_loop_unfixed[of "rows fixed" "[]" "rows fixed"]
  by (cases "fix_loop (rows fixed) [] (rows fixed)") (simp add: apply_fixes_def)

text \<open>
  Claim C4. When the run has reached the fixer and the table loaded from its file has a
  row that is not resolvable, the run ends with \<open>UnresolvedSequences\<close> and the list
  \<^verbatim>\<open>unfixed_cdr3\<close>: one entry for every row that is not resolvable, in table order, made
  of the row's label and its cells under \<^verbatim>\<open>fixed.cdr3\<close>, \<^verbatim>\<open>closest.v.id\<close>,
  \<^verbatim>\<open>closest.j.id\<close>, \<^verbatim>\<open>v.canonical\<close>, \<^verbatim>\<open>j.canonical\<close>, \<^verbatim>\<open>v.fix.type\<close> and
  \<^verbatim>\<open>j.fix.type\<close>. The final file \<^verbatim>\<open>vdjdb.txt\<close> is left as it was; only the raw export
  has been written.
\<close>

theorem unresolved_rows_abort_run:
  assumes "validated_table chunk_files = Inr df"
    and "fixcdr3 (to_csv required_columns ''NA'' df) = Some fixed"
    and "(index, row) \<in> set (rows fixed)"
    and "\<not> resolvable row"
  shows "build_db fixcdr3 chunk_files files =
           (Inl (UnresolvedSequences
                   (map (\<lambda>(i, r). (i, map r unfixed_cols))
                        (filter (\<lambda>(i, r). \<not> resolvable r) (rows fixed)))),
            files\<lparr>vdjdb_raw := Some (to_csv required_columns ''NA'' df)\<rparr>) \<and>
         vdjdb (snd (build_db fixcdr3 chunk_files files)) = vdjdb files \<and>
         (index, [row ''fixed.cdr3'', row ''closest.v.id'', row ''closest.j.id'',
                  row ''v.canonical'', row ''j.canonical'', row ''v.fix.type'',
                  row ''j.fix.type''])
           \<in> set (map (\<lambda>(i, r). (i, map r unfixed_cols))
                      (filter (\<lambda>(i, r). \<not> resolvable r) (rows fixed)))"
proof -
  from assms(3,4) have mem: "(index, map row unfixed_cols) \<in> set (unresolved (rows fixed))"
    by (force simp: unresolved_def)
  then have ne: "unresolved (rows fixed) \<noteq> []" by auto
  have run: "build_db fixcdr3 chunk_files files =
      (Inl (UnresolvedSequences (unresolved (rows fixed))),
       files\<lparr>vdjdb_raw := Some (to_csv required_columns ''NA'' df)\<rparr>)"
    using assms(1,2) apply_fixes_unresolved[OF ne] by (simp add: build_db_def Let_def)
  from run mem show ?thesis by (simp add: unresolved_def unfixed_cols_def)
qed

lemma two_line_merged:
  "merge_chunks [(''a.txt'', two_line_chunk)] = Inr (example_table [two_line_chunk])"
proof -
  have "distinct (infer (is_na [] False) [''VDJDBR00000001'', ''VDJDBR00000002''])"
    by code_simp
  then show ?thesis
    unfolding two_line_chunk_def
    by (intro merge_one_example_chunk) (simp add: example_line_def)
qed

lemma two_line_validated:
  "validated_table [(''a.txt'', two_line_chunk)] = Inr (example_table [two_line_chunk])"
proof -
  let ?df = "example_table [two_line_chunk]"
  have d: "duplicates ?df = []" by code_simp
  have r: "check_records ?df = Inr []" by code_simp
  have c: "check_complexes ?df [] = Inr ()" by code_simp
  from validated_table_records_ok[OF two_line_merged d r] c show ?thesis by simp
qed

theorem unresolved_rows_abort_run_witness:
  "build_db (\<lambda>raw. Some diag_fixed_table) [(''a.txt'', two_line_chunk)] no_files =
     (Inl (UnresolvedSequences
        [(Str ''VDJDBR00000002'',
          [Str ''CASSFF'', Str ''TRBV1*01'', Str ''TRBJ1*01'', Bool False, Bool True,
           Str ''NoFixNeeded'', Str ''FailedBadSegment''])]),
      \<lparr>vdjdb_raw = Some (to_csv required_columns ''NA'' (example_table [two_line_chunk])),
       vdjdb = None\<rparr>)"
proof -
  let ?row = "snd (fixed_row ''VDJDBR00000002'' ''CASSF'' (Bool False) (Bool False) (Bool True))"
  have f: "(\<lambda>raw. Some diag_fixed_table)
             (to_csv required_columns ''NA'' (example_table [two_line_chunk])) =
           Some diag_fixed_table" by simp
  have r: "(Str ''VDJDBR00000002'', ?row) \<in> set (rows diag_fixed_table)"
    by (simp add: diag_fixed_table_def fixed_table_def fixed_row_def)
  have u: "\<not> resolvable ?row"
    by (simp add: resolvable_def fixed_row_def)
  have l: "map (\<lambda>(i, r). (i, map r unfixed_cols))
               (filter (\<lambda>(i, r). \<not> resolvable r) (rows diag_fixed_table)) =
           [(Str ''VDJDBR00000002'',
             [Str ''CASSFF'', Str ''TRBV1*01'', Str ''TRBJ1*01'', Bool False, Bool True,
              Str ''NoFixNeeded'', Str ''FailedBadSegment''])]"
    by (simp add: diag_fixed_table_def fixed_table_def fixed_row_def resolvable_def
                  unfixed_cols_def)
  from unresolved_rows_abort_run[OF two_line_validated f r u, of no_files] l
  show ?thesis by (simp add: no_files_def)
qed

lemma eq_key_imp_eq_value':
  "distinct (map fst rs) \<Longrightarrow> (k, a) \<in> set rs \<Longrightarrow> (k, b) \<in> set rs \<Longrightarrow> a = b"
  by (rule eq_key_imp_eq_value)

lemma unresolved_mem:
  "(index, cells) \<in> set (unresolved rs) \<Longrightarrow>
     \<exists>row. (index, row) \<in> set rs \<and> \<not> resolvable row \<and> cells = map row unfixed_cols"
  by (auto simp: unresolved_def)

text \<open>
  Claim C5. A row of the fixer's table whose three flags are booleans is resolvable
  exactly when \<^verbatim>\<open>good\<close> is true or both \<^verbatim>\<open>v.canonical\<close> and \<^verbatim>\<open>j.canonical\<close> are true. A
  row that is not resolvable is collected and the run fails with
  \<open>UnresolvedSequences\<close>, whatever the other rows are; this is so for the flags false,
  false, true. A resolvable row is not collected and, the table being keyed by the
  record id (no label twice), stands in the table after the loop with its cdr3, v.segm
  and j.segm replaced by its \<^verbatim>\<open>fixed.cdr3\<close>, \<^verbatim>\<open>closest.v.id\<close> and \<^verbatim>\<open>closest.j.id\<close>.
\<close>

theorem fixes_decided_per_row:
  assumes "(index, row) \<in> set (rows fixed)"
    and "row ''good'' = Bool good"
    and "row ''v.canonical'' = Bool v_canonical"
    and "row ''j.canonical'' = Bool j_canonical"
  shows "(resolvable row \<longleftrightarrow> good \<or> (v_canonical \<and> j_canonical)) \<and>
         (\<not> (good \<or> (v_canonical \<and> j_canonical)) \<longrightarrow>
            (index, map row unfixed_cols) \<in> set (fst (fix_loop (rows fixed) [] (rows fixed))) \<and>
            apply_fixes fixed files =
              (Inl (UnresolvedSequences (fst (fix_loop (rows fixed) [] (rows fixed)))), files)) \<and>
         ((good \<or> (v_canonical \<and> j_canonical)) \<and> distinct (map fst (rows fixed)) \<longrightarrow>
            (index, row(''cdr3'' := row ''fixed.cdr3'', ''v.segm'' := row ''closest.v.id'',
                        ''j.segm'' := row ''closest.j.id''))
              \<in> set (snd (fix_loop (rows fixed) [] (rows fixed))) \<and>
            index \<notin> fst ` set (fst (fix_loop (rows fixed) [] (rows fixed)))) \<and>
         (\<not> good \<and> \<not> v_canonical \<and> j_canonical \<longrightarrow>
            (\<exists>unfixed. apply_fixes fixed files = (Inl (UnresolvedSequences unfixed), files) \<and>
                       (index, map row unfixed_cols) \<in> set unfixed))"
proof -
  let ?rs = "rows fixed"
  have res: "resolvable row \<longleftrightarrow> good \<or> (v_canonical \<and> j_canonical)"
    using assms(2-4) by (simp add: resolvable_def)
  have un: "fst (fix_loop ?rs [] ?rs) = unresolved ?rs"
    using fix_loop_unfixed[of ?rs "[]" ?rs] by simp
  have 2: "(index, map row unfixed_cols) \<in> set (fst (fix_loop ?rs [] ?rs)) \<and>
           apply_fixes fixed files = (Inl (UnresolvedSequences (fst (fix_loop ?rs [] ?rs))), files)"
    if "\<not> (good \<or> (v_canonical \<and> j_canonical))"
  proof -
    from that res have "\<not> resolvable row" by simp
    with assms(1) have mem: "(index, map row unfixed_cols) \<in> set (unresolved ?rs)"
      by (force simp: unresolved_def)
    then have "unresolved ?rs \<noteq> []" by auto
    from apply_fixes_unresolved[OF this] mem un show ?thesis by simp
  qed
  have 3: "(index, row(''cdr3'' := row ''fixed.cdr3'', ''v.segm'' := row ''closest.v.id'',
                       ''j.segm'' := row ''closest.j.id'')) \<in> set (snd (fix_loop ?rs [] ?rs)) \<and>
           index \<notin> fst ` set (fst (fix_loop ?rs [] ?rs))"
    if r: "good \<or> (v_canonical \<and> j_canonical)" and d: "distinct (map fst ?rs)"
  proof -
    from r res have rr: "resolvable row" by simp
    have "(index, overwritten row) \<in> set (snd (fix_loop ?rs [] ?rs))"
      using fix_loop_rows[OF d] assms(1) rr by force
    moreover have "index \<notin> fst ` set (unresolved ?rs)"
    proof
      assume "index \<in> fst ` set (unresolved ?rs)"
      then obtain cells where "(index, cells) \<in> set (unresolved ?rs)" by force
      from unresolved_mem[OF this] obtain row' where
        "(index, row') \<in> set ?rs" "\<not> resolvable row'" by blast
      with eq_key_imp_eq_value'[OF d assms(1)] rr show False by blast
    qed
    ultimately show ?thesis using un by (simp add: overwritten_def)
  qed
  have 4: "\<exists>unfixed. apply_fixes fixed files = (Inl (UnresolvedSequences unfixed), files) \<and>
                     (index, map row unfixed_cols) \<in> set unfixed"
    if "\<not> good \<and> \<not> v_canonical \<and> j_canonical"
    using 2 that by blast
  from res 2 3 4 show ?thesis by blast
qed

theorem fixes_decided_per_row_witness:
  "apply_fixes diag_fixed_table no_files =
     (Inl (UnresolvedSequences (fst (fix_loop (rows diag_fixed_table) [] (rows diag_fixed_table)))),
      no_files) \<and>
   (Str ''VDJDBR00000002'',
    map (snd (fixed_row ''VDJDBR00000002'' ''CASSF'' (Bool False) (Bool False) (Bool True))) unfixed_cols)
     \<in> set (fst (fix_loop (rows diag_fixed_table) [] (rows diag_fixed_table))) \<and>
   (Str ''VDJDBR00000001'',
    (snd (fixed_row ''VDJDBR00000001'' ''CASSL'' (Bool True) (Bool False) (Bool False)))
      (''cdr3'' := Str ''CASSLF'', ''v.segm'' := Str ''TRBV1*01'', ''j.segm'' := Str ''TRBJ1*01''))
     \<in> set (snd (fix_loop (rows diag_fixed_table) [] (rows diag_fixed_table))) \<and>
   Str ''VDJDBR00000001'' \<notin> fst ` set (fst (fix_loop (rows diag_fixed_table) [] (rows diag_fixed_table)))"
proof -
  let ?r1 = "snd (fixed_row ''VDJDBR00000001'' ''CASSL'' (Bool True) (Bool False) (Bool False))"
  let ?r2 = "snd (fixed_row ''VDJDBR00000002'' ''CASSF'' (Bool False) (Bool False) (Bool True))"
  have m1: "(Str ''VDJDBR00000001'', ?r1) \<in> set (rows diag_fixed_table)"
    and m2: "(Str ''VDJDBR00000002'', ?r2) \<in> set (rows diag_fixed_table)"
    and d: "distinct (map fst (rows diag_fixed_table))"
    by (simp_all add: diag_fixed_table_def fixed_table_def fixed_row_def)
  have f1: "?r1 ''good'' = Bool True" "?r1 ''v.canonical'' = Bool False"
       "?r1 ''j.canonical'' = Bool False"
       "?r1 ''fixed.cdr3'' = Str ''CASSLF''" "?r1 ''closest.v.id'' = Str ''TRBV1*01''"
       "?r1 ''closest.j.id'' = Str ''TRBJ1*01''"
    by (simp_all add: fixed_row_def)
  have f2: "?r2 ''good'' = Bool False" "?r2 ''v.canonical'' = Bool False"
       "?r2 ''j.canonical'' = Bool True"
    by (simp_all add: fixed_row_def)
  from fixes_decided_per_row[OF m2 f2, of no_files]
  have a: "(Str ''VDJDBR00000002'', map ?r2 unfixed_cols)
             \<in> set (fst (fix_loop (rows diag_fixed_table) [] (rows diag_fixed_table))) \<and>
           apply_fixes diag_fixed_table no_files =
             (Inl (UnresolvedSequences
                (fst (fix_loop (rows diag_fixed_table) [] (rows diag_fixed_table)))), no_files)"
    by simp
  from fixes_decided_per_row[OF m1 f1(1-3), of no_files] d
  have b: "(Str ''VDJDBR00000001'',
            ?r1(''cdr3'' := ?r1 ''fixed.cdr3'', ''v.segm'' := ?r1 ''closest.v.id'',
                ''j.segm'' := ?r1 ''closest.j.id''))
             \<in> set (snd (fix_loop (rows diag_fixed_table) [] (rows diag_fixed_table))) \<and>
           Str ''VDJDBR00000001'' \<notin> fst ` set (fst (fix_loop (rows diag_fixed_table) [] (rows diag_fixed_table)))"
    by simp
  from a b f1(4-6) show ?thesis by simp
qed

section \<open>Columns that are read as numbers\<close>

text \<open>
  Claim C6 (the code departs from it). On a table whose cdr3 column holds texts the
  record check does what the claim says: the row with the cdr3 \<^verbatim>\<open>CASSLX1\<close> is reported
  with the message for the cdr3, the row with \<^verbatim>\<open>CASSL\<close> is not, and the run fails once
  after the loop. On a chunk file whose only cdr3 is \<^verbatim>\<open>123\<close> the column is read as
  integers, \<^verbatim>\<open>re.match\<close> raises a TypeError on the first row, and the run ends inside
  the loop with no dictionary of bad records at all.
\<close>

theorem record_check_stops_on_number:
  "check_records (example_table [cdr3_chunk]) =
     Inl (InvalidRecord [(Str ''VDJDBR00000002'', [''Bad CDR3 sequence''])]) \<and>
   merge_chunks [(''a.txt'', digits_cdr3_chunk)] = Inr (example_table [digits_cdr3_chunk]) \<and>
   map (\<lambda>(i, row). row ''cdr3'') (rows (example_table [digits_cdr3_chunk])) = [Integer 123] \<and>
   check_records (example_table [digits_cdr3_chunk]) = Inl TypeError \<and>
   build_db fixcdr3 [(''a.txt'', digits_cdr3_chunk)] files = (Inl TypeError, files)"
proof -
  let ?df = "example_table [digits_cdr3_chunk]"
  have a: "check_records (example_table [cdr3_chunk]) =
             Inl (InvalidRecord [(Str ''VDJDBR00000002'', [''Bad CDR3 sequence''])])"
    by code_simp
  have "distinct (infer (is_na [] False) [''VDJDBR00000001''])"
    by code_simp
  then have m: "merge_chunks [(''a.txt'', digits_cdr3_chunk)] = Inr ?df"
    unfolding digits_cdr3_chunk_def
    by (intro merge_one_example_chunk) (simp add: example_line_def)
  have c: "map (\<lambda>(i, row). row ''cdr3'') (rows ?df) = [Integer 123]"
    by code_simp
  have d: "duplicates ?df = []"
    by code_simp
  have r: "check_records ?df = Inl TypeError"
    by code_simp
  from m d r have "validated_table [(''a.txt'', digits_cdr3_chunk)] = Inl TypeError"
    by (simp add: validated_table_def check_duplicates_def)
  then have "build_db fixcdr3 [(''a.txt'', digits_cdr3_chunk)] files = (Inl TypeError, files)"
    by (simp add: build_db_def)
  with a m c r show ?thesis by simp
qed

text \<open>
  Claim C8 (the code departs from it). An empty antigen is read as the empty text and
  gives no message. But on a chunk file whose only antigen is \<^verbatim>\<open>0\<close>, a field that is not
  empty and does not match the amino-acid pattern, the column is read as integers: the
  cell is the number zero, which is false in Python, so the antigen test is skipped and
  the record check passes without the message \<^verbatim>\<open>Bad antigen sequence\<close>.
\<close>

theorem zero_antigen_not_checked:
  "map (\<lambda>(i, row). row ''antigen'') (rows (example_table [two_line_chunk])) =
     [Str ''GILGFVFTL'', Str []] \<and>
   check_records (example_table [two_line_chunk]) = Inr [] \<and>
   map (\<lambda>(i, flds). flds ! 9) (lines zero_antigen_chunk) = [''0''] \<and>
   \<not> aa_pattern ''0'' \<and>
   merge_chunks [(''a.txt'', zero_antigen_chunk)] = Inr (example_table [zero_antigen_chunk]) \<and>
   map (\<lambda>(i, row). row ''antigen'') (rows (example_table [zero_antigen_chunk])) = [Integer 0] \<and>
   map (\<lambda>(i, row). messages i row) (rows (example_table [zero_antigen_chunk])) = [Inr []] \<and>
   check_records (example_table [zero_antigen_chunk]) = Inr []"
proof -
  let ?df = "example_table [zero_antigen_chunk]"
  have a: "map (\<lambda>(i, row). row ''antigen'') (rows (example_table [two_line_chunk])) =
             [Str ''GILGFVFTL'', Str []]"
    by code_simp
  have b: "check_records (example_table [two_line_chunk]) = Inr []"
    by code_simp
  have c: "map (\<lambda>(i, flds). flds ! 9) (lines zero_antigen_chunk) = [''0'']"
    by (simp add: zero_antigen_chunk_def example_chunk_def example_line_def)
  have p: "\<not> aa_pattern ''0''"
    by (simp add: aa_pattern_def aa_def)
  have "distinct (infer (is_na [] False) [''VDJDBR00000001''])"
    by code_simp
  then have m: "merge_chunks [(''a.txt'', zero_antigen_chunk)] = Inr ?df"
    unfolding zero_antigen_chunk_def
    by (intro merge_one_example_chunk) (simp add: example_line_def)
  have z: "map (\<lambda>(i, row). row ''antigen'') (rows ?df) = [Integer 0]"
    by code_simp
  have msgs: "map (\<lambda>(i, row). messages i row) (rows ?df) = [Inr []]"
    by code_simp
  have r: "check_records ?df = Inr []"
    by code_simp
  from a b c p m z msgs r show ?thesis by simp
qed

text \<open>
  Claim C9 (the code departs from it). Two chunk files that both define the record id
  \<^verbatim>\<open>VDJDBR00000001\<close> do not merge: the run ends with the duplicate-key error. But when
  both define the record id \<^verbatim>\<open>1\<close> and only the second has another id that is not a
  number, the first index is read as integers and the second as texts, the labels
  \<open>1\<close> and \<^verbatim>\<open>'1'\<close> differ, and the files merge in either order into a table that holds
  the record id twice.
\<close>

theorem shared_number_id_merges:
  "merge_chunks [(''a.txt'', one_line_chunk ''VDJDBR00000001''),
                 (''b.txt'', one_line_chunk ''VDJDBR00000001'')] =
     Inl (DuplicateKey [Str ''VDJDBR00000001'']) \<and>
   map fst (lines id_1_chunk) = [''1''] \<and>
   map fst (lines id_1_x_chunk) = [''1'', ''x''] \<and>
   merge_chunks [(''a.txt'', id_1_chunk), (''b.txt'', id_1_x_chunk)] =
     Inr (example_table [id_1_chunk, id_1_x_chunk]) \<and>
   map fst (rows (example_table [id_1_chunk, id_1_x_chunk])) = [Integer 1, Str ''1'', Str ''x''] \<and>
   merge_chunks [(''b.txt'', id_1_x_chunk), (''a.txt'', id_1_chunk)] =
     Inr (example_table [id_1_x_chunk, id_1_chunk]) \<and>
   map fst (rows (example_table [id_1_x_chunk, id_1_chunk])) = [Str ''1'', Str ''x'', Integer 1]"
proof -
  let ?one = "one_line_chunk ''VDJDBR00000001''"
  have "distinct (infer (is_na [] False) [''VDJDBR00000001''])"
    by code_simp
  then have "merge_chunks [(''a.txt'', ?one)] = Inr (example_table [?one])"
    unfolding one_line_chunk_def
    by (intro merge_one_example_chunk) (simp add: example_line_def)
  moreover have "check_chunk ''b.txt'' (read_table [] False ?one) = Inr ()"
    by (simp add: check_chunk_def missing_cols_def index_column_def one_line_chunk_def
                  example_chunk_def)
  moreover have "append_verify (example_table [?one]) (read_table [] False ?one) =
                   Inl (DuplicateKey [Str ''VDJDBR00000001''])"
  proof -
    have "map fst (rows (example_table [?one])) @ map fst (rows (read_table [] False ?one)) =
            [Str ''VDJDBR00000001'', Str ''VDJDBR00000001'']"
      by code_simp
    then show ?thesis by (simp add: append_verify_def Let_def get_duplicates_def)
  qed
  ultimately have k: "merge_chunks [(''a.txt'', ?one), (''b.txt'', ?one)] =
                        Inl (DuplicateKey [Str ''VDJDBR00000001''])"
    using chunk_loop_append[of empty_df "[(''a.txt'', ?one)]" "[(''b.txt'', ?one)]"]
    by (simp add: merge_chunks_def Let_def)
  have i1: "map fst (lines id_1_chunk) = [''1'']"
    by (simp add: id_1_chunk_def example_chunk_def example_line_def)
  have i2: "map fst (lines id_1_x_chunk) = [''1'', ''x'']"
    by (simp add: id_1_x_chunk_def example_chunk_def example_line_def)
  have h: "header id_1_chunk = required_columns" "header_index id_1_chunk = ''record.id''"
    "header id_1_x_chunk = required_columns" "header_index id_1_x_chunk = ''record.id''"
    by (simp_all add: id_1_chunk_def id_1_x_chunk_def example_chunk_def)
  have d1: "distinct (infer (is_na [] False) [''1''] @ infer (is_na [] False) [''1'', ''x''])"
    by code_simp
  have d2: "distinct (infer (is_na [] False) [''1'', ''x''] @ infer (is_na [] False) [''1''])"
    by code_simp
  have "merge_chunks [(''a.txt'', id_1_chunk), (''b.txt'', id_1_x_chunk)] =
          Inr (example_table (map snd [(''a.txt'', id_1_chunk), (''b.txt'', id_1_x_chunk)]))"
    using h d1 i1 i2 by (intro merge_chunks_example) simp_all
  then have m1: "merge_chunks [(''a.txt'', id_1_chunk), (''b.txt'', id_1_x_chunk)] =
                   Inr (example_table [id_1_chunk, id_1_x_chunk])"
    by simp
  have "merge_chunks [(''b.txt'', id_1_x_chunk), (''a.txt'', id_1_chunk)] =
          Inr (example_table (map snd [(''b.txt'', id_1_x_chunk), (''a.txt'', id_1_chunk)]))"
    using h d2 i1 i2 by (intro merge_chunks_example) simp_all
  then have m2: "merge_chunks [(''b.txt'', id_1_x_chunk), (''a.txt'', id_1_chunk)] =
                   Inr (example_table [id_1_x_chunk, id_1_chunk])"
    by simp
  have l1: "map fst (rows (example_table [id_1_chunk, id_1_x_chunk])) =
              [Integer 1, Str ''1'', Str ''x'']"
    by code_simp
  have l2: "map fst (rows (example_table [id_1_x_chunk, id_1_chunk])) =
              [Str ''1'', Str ''x'', Integer 1]"
    by code_simp
  from k i1 i2 m1 l1 m2 l2 show ?thesis by simp
qed

section \<open>A complete run\<close>










lemma length_column_text [simp]: "length (column_text t c) = length (lines t)"
  by (simp add: column_text_def)



















end
